theory Spec2Isabelle
  imports Complex_Main
begin

section \<open>Data model\<close>

subsection \<open>Movies (src/Movies.js, MovieSchema)\<close>

text \<open>
  The schema declares \<open>title: String\<close> (required), \<open>releaseDate: Number\<close>
  (min 1900, max 2100), \<open>genre: String\<close> (an enumeration of ten values) and
  \<open>actors\<close>, an array of \<open>{actorName, characterName}\<close>. A JSON object need not
  carry a field, so every field is optional; a field that is present has the type the
  schema declares for it. Numbers are the finite values a JSON document can carry.
  The same shape serves for the movie part of a request body and for a stored document.
\<close>

record actor =
  actorName :: string
  characterName :: string

record movie =
  title :: "string option"
  releaseDate :: "real option"
  genre :: "string option"
  actors :: "actor list option"

text \<open>The enumeration of \<open>MovieSchema.genre\<close> (src/Movies.js, lines 12-23).\<close>

definition genreEnum :: "string list" where
  "genreEnum = [''Action'', ''Adventure'', ''Comedy'', ''Drama'', ''Fantasy'', ''Horror'',
                ''Mystery'', ''Thriller'', ''Western'', ''Science Fiction'']"

subsection \<open>Requests and responses\<close>

text \<open>
  \<open>req.body\<close> is one JSON object; the signup and signin handlers read
  \<open>name\<close>, \<open>username\<close> and \<open>password\<close> from it, the movie handlers the movie fields.
\<close>

record reqBody = movie +
  name :: "string option"
  username :: "string option"
  password :: "string option"

text \<open>
  A bearer token. The signature is abstracted to the key it was computed with: checking
  it succeeds exactly under that key. Times are seconds of the Unix clock.
\<close>

datatype token =
  Malformed string
  | Signed (tokId: nat) (tokUsername: string) (tokIat: nat) (tokExp: nat) (signedWith: string)

record identity =
  userId :: nat
  userName :: string

text \<open>
  The authorization header, when the request has one: a scheme prefix followed by the
  token, standing for the concatenation of both.
\<close>

datatype httpMethod = GET | POST | PUT | DELETE

record request =
  verb :: httpMethod
  path :: "string list"
  authorization :: "(string \<times> token) option"
  body :: reqBody
  user :: "identity option"

text \<open>Values that the handlers put into a JSON response body.\<close>

datatype jval =
  JBool bool
  | JStr string
  | JToken string token
  | JMovie movie
  | JMovies "movie list"
  | JResult nat

datatype resBody = Json "(string \<times> jval) list" | Text string

record response =
  status :: nat
  resBody :: resBody

text \<open>\<open>res.status(s).json(b)\<close>; \<open>res.json(b)\<close> leaves the status at 200.\<close>

definition json :: "nat \<Rightarrow> (string \<times> jval) list \<Rightarrow> response" where
  "json s b = \<lparr>status = s, resBody = Json b\<rparr>"

subsection \<open>JavaScript truthiness of optional fields\<close>

text \<open>
  \<open>!x\<close> holds for \<open>undefined\<close>, for the number 0 and for the empty string; every
  array, the empty one too, is truthy.
\<close>

definition truthyNum :: "real option \<Rightarrow> bool" where
  "truthyNum v = (case v of None \<Rightarrow> False | Some n \<Rightarrow> n \<noteq> 0)"

definition truthyStr :: "string option \<Rightarrow> bool" where
  "truthyStr v = (case v of None \<Rightarrow> False | Some s \<Rightarrow> s \<noteq> [])"

definition truthyArr :: "'a list option \<Rightarrow> bool" where
  "truthyArr v = (case v of None \<Rightarrow> False | Some xs \<Rightarrow> True)"

text \<open>
  \<open>x < c\<close> and \<open>x > c\<close> against a number: \<open>undefined\<close> converts to \<open>NaN\<close>, which
  compares false both ways. \<open>list.includes(x)\<close> is false for \<open>undefined\<close> and
  compares strings exactly.
\<close>

definition jsLess :: "real option \<Rightarrow> real \<Rightarrow> bool" where
  "jsLess v c = (case v of None \<Rightarrow> False | Some n \<Rightarrow> n < c)"

definition jsGreater :: "real option \<Rightarrow> real \<Rightarrow> bool" where
  "jsGreater v c = (case v of None \<Rightarrow> False | Some n \<Rightarrow> n > c)"

definition includesStr :: "string list \<Rightarrow> string option \<Rightarrow> bool" where
  "includesStr xs v = (case v of None \<Rightarrow> False | Some s \<Rightarrow> s \<in> set xs)"

section \<open>The document store\<close>

text \<open>
  Errors thrown by the persistence layer are JavaScript error objects with an optional
  numeric \<open>code\<close> and a \<open>message\<close>.
\<close>

datatype jsError = Error (code: "nat option") (message: string)

datatype user = User (user_id: nat) (user_name: "string option") (user_username: string)
  (user_password: string)

datatype dbcall =
  UserSave string
  | UserFindOne "string option"
  | MovieFind
  | MovieSave
  | MovieFindOneAndUpdate string
  | MovieFindOne string
  | MovieDeleteOne string

text \<open>
  The store holds the two collections in insertion order. \<open>fault\<close> is the error with
  which the driver rejects every call while the store is unreachable, and \<open>calls\<close>
  records every model call that was made, in order.
\<close>

record db =
  users :: "user list"
  movies :: "movie list"
  fault :: "jsError option"
  calls :: "dbcall list"

definition logCall :: "dbcall \<Rightarrow> db \<Rightarrow> db" where
  "logCall c d = d\<lparr>calls := calls d @ [c]\<rparr>"

subsection \<open>The Movie model\<close>

text \<open>
  \<open>new Movie(doc)\<close> keeps the schema's fields and gives \<open>actors\<close> its default,
  the empty array.
\<close>

definition newMovie :: "'a movie_scheme \<Rightarrow> movie" where
  "newMovie b = \<lparr>title = title b, releaseDate = releaseDate b, genre = genre b,
                 actors = Some (case actors b of None \<Rightarrow> [] | Some xs \<Rightarrow> xs)\<rparr>"

text \<open>
  The validators that \<open>MovieSchema\<close> declares, run by \<open>save\<close>: \<open>title\<close> is required
  (a missing or empty string fails), \<open>releaseDate\<close> has \<open>min\<close> 1900 and \<open>max\<close> 2100,
  \<open>genre\<close> is checked against the enumeration. The result lists the failing paths.
\<close>

definition schemaErrors :: "movie \<Rightarrow> string list" where
  "schemaErrors m =
     (if truthyStr (title m) then [] else [''title: Path `title` is required.''])
     @ (case releaseDate m of
          None \<Rightarrow> []
        | Some y \<Rightarrow> (if y < 1900 then [''releaseDate: Must be greater than 1899'']
                     else if y > 2100 then [''releaseDate: Must be less than 2100'']
                     else []))
     @ (case genre m of
          None \<Rightarrow> []
        | Some g \<Rightarrow> (if g \<in> set genreEnum then []
                     else [''genre: `'' @ g @ ''` is not a valid enum value for path `genre`.'']))"

definition validationError :: "string list \<Rightarrow> jsError" where
  "validationError es = Error None (''Movie validation failed: '' @ concat es)"

definition Movie_find :: "db \<Rightarrow> (jsError + movie list) \<times> db" where
  "Movie_find d =
     (case fault d of
        Some e \<Rightarrow> (Inl e, logCall MovieFind d)
      | None \<Rightarrow> (Inr (movies d), logCall MovieFind d))"

definition Movie_save :: "movie \<Rightarrow> db \<Rightarrow> (jsError + movie) \<times> db" where
  "Movie_save m d =
     (if schemaErrors m \<noteq> [] then (Inl (validationError (schemaErrors m)), logCall MovieSave d)
      else case fault d of
        Some e \<Rightarrow> (Inl e, logCall MovieSave d)
      | None \<Rightarrow> (Inr m, logCall MovieSave (d\<lparr>movies := movies d @ [m]\<rparr>)))"

definition Movie_findOne :: "string \<Rightarrow> db \<Rightarrow> (jsError + movie option) \<times> db" where
  "Movie_findOne t d =
     (case fault d of
        Some e \<Rightarrow> (Inl e, logCall (MovieFindOne t) d)
      | None \<Rightarrow> (Inr (find (\<lambda>m. title m = Some t) (movies d)), logCall (MovieFindOne t) d))"

text \<open>
  \<open>findOneAndUpdate({title}, update, {new: true})\<close> sets the schema fields that the
  update carries on the first document with that title and returns the document as
  updated, or \<open>null\<close> when no document matches. It runs no schema validator.
\<close>

definition applyUpdate :: "'a movie_scheme \<Rightarrow> movie \<Rightarrow> movie" where
  "applyUpdate u m =
     \<lparr>title = (case title u of None \<Rightarrow> title m | Some x \<Rightarrow> Some x),
      releaseDate = (case releaseDate u of None \<Rightarrow> releaseDate m | Some x \<Rightarrow> Some x),
      genre = (case genre u of None \<Rightarrow> genre m | Some x \<Rightarrow> Some x),
      actors = (case actors u of None \<Rightarrow> actors m | Some x \<Rightarrow> Some x)\<rparr>"

fun updateFirst :: "string \<Rightarrow> (movie \<Rightarrow> movie) \<Rightarrow> movie list \<Rightarrow> movie option \<times> movie list" where
  "updateFirst t f [] = (None, [])"
| "updateFirst t f (m # ms) =
     (if title m = Some t then (Some (f m), f m # ms)
      else (case updateFirst t f ms of (r, ms') \<Rightarrow> (r, m # ms')))"

definition Movie_findOneAndUpdate ::
  "string \<Rightarrow> 'a movie_scheme \<Rightarrow> db \<Rightarrow> (jsError + movie option) \<times> db" where
  "Movie_findOneAndUpdate t u d =
     (case fault d of
        Some e \<Rightarrow> (Inl e, logCall (MovieFindOneAndUpdate t) d)
      | None \<Rightarrow>
          (case updateFirst t (applyUpdate u) (movies d) of
             (r, ms) \<Rightarrow> (Inr r, logCall (MovieFindOneAndUpdate t) (d\<lparr>movies := ms\<rparr>))))"

text \<open>
  \<open>deleteOne({title})\<close> removes the first document with that title, if there is one,
  and returns the number of documents it removed.
\<close>

fun deleteFirst :: "string \<Rightarrow> movie list \<Rightarrow> nat \<times> movie list" where
  "deleteFirst t [] = (0, [])"
| "deleteFirst t (m # ms) =
     (if title m = Some t then (1, ms)
      else (case deleteFirst t ms of (n, ms') \<Rightarrow> (n, m # ms')))"

definition Movie_deleteOne :: "string \<Rightarrow> db \<Rightarrow> (jsError + nat) \<times> db" where
  "Movie_deleteOne t d =
     (case fault d of
        Some e \<Rightarrow> (Inl e, logCall (MovieDeleteOne t) d)
      | None \<Rightarrow>
          (case deleteFirst t (movies d) of
             (n, ms) \<Rightarrow> (Inr n, logCall (MovieDeleteOne t) (d\<lparr>movies := ms\<rparr>))))"

section \<open>The movie handlers (src/server.js, lines 98-177)\<close>

text \<open>\<open>GET /movies\<close>, lines 99-106.\<close>

definition getMovies :: "request \<Rightarrow> db \<Rightarrow> response \<times> db" where
  "getMovies req d =
     (case Movie_find d of
        (Inr ms, d') \<Rightarrow> (json 200 [(''success'', JBool True), (''movies'', JMovies ms)], d')
      | (Inl err, d') \<Rightarrow>
          (json 500 [(''success'', JBool False), (''message'', JStr ''GET request failed''),
                     (''error'', JStr (message err))], d'))"

text \<open>\<open>POST /movies\<close>, lines 107-115.\<close>

definition postMovies :: "request \<Rightarrow> db \<Rightarrow> response \<times> db" where
  "postMovies req d =
     (case Movie_save (newMovie (body req)) d of
        (Inr m, d') \<Rightarrow>
          (json 201 [(''success'', JBool True), (''message'', JStr ''Movie added successfully''),
                     (''movie'', JMovie m)], d')
      | (Inl err, d') \<Rightarrow>
          (json 500 [(''success'', JBool False), (''message'', JStr ''POST request failed''),
                     (''error'', JStr (message err))], d'))"

text \<open>The list \<open>validGenres\<close> of the update handler, lines 134-137.\<close>

definition validGenres :: "string list" where
  "validGenres = [''Action'', ''Adventure'', ''Comedy'', ''Drama'', ''Fantasy'', ''Horror'',
                  ''Mystery'', ''Thriller'', ''Western'', ''Science Fiction'']"

text \<open>
  \<open>PUT /movies/:title\<close>, lines 118-160; \<open>t\<close> is \<open>req.params.title\<close>. The four checks
  come in the order of the source, each returning at once.
\<close>

definition putMovie :: "string \<Rightarrow> request \<Rightarrow> db \<Rightarrow> response \<times> db" where
  "putMovie t req d =
     (let updateData = body req in
      if \<not> truthyNum (releaseDate updateData) \<and> \<not> truthyStr (genre updateData)
         \<and> \<not> truthyArr (actors updateData)
      then (json 400 [(''success'', JBool False),
                      (''message'', JStr ''Provide at least one field to update.'')], d)
      else if truthyNum (releaseDate updateData)
              \<and> (jsLess (releaseDate updateData) 1900 \<or> jsGreater (releaseDate updateData) 2100)
      then (json 400 [(''success'', JBool False),
                      (''message'', JStr ''Release year must be between 1900 and 2100.'')], d)
      else if truthyStr (genre updateData) \<and> \<not> includesStr validGenres (genre updateData)
      then (json 400 [(''success'', JBool False),
                      (''message'', JStr ''Invalid genre, please try again.'')], d)
      else if (case actors updateData of None \<Rightarrow> False | Some xs \<Rightarrow> length xs < 3)
      then (json 400 [(''success'', JBool False),
                      (''message'', JStr ''A movie must have at least 3 actors.'')], d)
      else
        (case Movie_findOneAndUpdate t updateData d of
           (Inr None, d') \<Rightarrow>
             (json 404 [(''success'', JBool False), (''message'', JStr ''Movie not found.'')], d')
         | (Inr (Some updatedMovie), d') \<Rightarrow>
             (json 200 [(''success'', JBool True),
                        (''message'', JStr ''Movie updated successfully.''),
                        (''movie'', JMovie updatedMovie)], d')
         | (Inl err, d') \<Rightarrow>
             (json 500 [(''success'', JBool False), (''message'', JStr ''Server error''),
                        (''error'', JStr (message err))], d')))"

text \<open>\<open>GET /movies/:title\<close>, lines 161-169.\<close>

definition getMovie :: "string \<Rightarrow> request \<Rightarrow> db \<Rightarrow> response \<times> db" where
  "getMovie t req d =
     (case Movie_findOne t d of
        (Inr None, d') \<Rightarrow>
          (json 404 [(''success'', JBool False), (''message'', JStr ''Movie not found'')], d')
      | (Inr (Some m), d') \<Rightarrow> (json 200 [(''success'', JBool True), (''movie'', JMovie m)], d')
      | (Inl err, d') \<Rightarrow>
          (json 500 [(''success'', JBool False), (''message'', JStr ''Server error''),
                     (''error'', JStr (message err))], d'))"

text \<open>\<open>DELETE /movies/:title\<close>, lines 170-177.\<close>

definition deleteMovie :: "string \<Rightarrow> request \<Rightarrow> db \<Rightarrow> response \<times> db" where
  "deleteMovie t req d =
     (case Movie_deleteOne t d of
        (Inr n, d') \<Rightarrow>
          (json 200 [(''success'', JBool True), (''message'', JStr ''Movie deleted''),
                     (''result'', JResult n)], d')
      | (Inl err, d') \<Rightarrow>
          (json 500 [(''success'', JBool False), (''message'', JStr ''Server error''),
                     (''error'', JStr (message err))], d'))"

section \<open>Accounts and tokens\<close>

text \<open>
  What a handler reads from its surroundings: the signing secret of the process
  environment, the clock in seconds, and the password-hashing primitive.
\<close>

record env =
  SECRET_KEY :: string
  clock :: nat
  hashPassword :: "string \<Rightarrow> string"

subsection \<open>The User model\<close>

text \<open>
  Modelled from the spec: the file \<open>Users.js\<close> with the User model is missing. A user
  has an optional \<open>name\<close>, a unique \<open>username\<close> and a \<open>password\<close> that is stored only
  as its hash; creating a user whose username exists fails with the duplicate-key
  condition, which the signup handler recognises by the error code 11000; a user without
  username or password is not saved.
\<close>

definition User_save ::
  "env \<Rightarrow> string option \<Rightarrow> string option \<Rightarrow> string option \<Rightarrow> db
     \<Rightarrow> (jsError + user) \<times> db" where
  "User_save ev n u p d =
     (case (u, p) of
        (Some un, Some pw) \<Rightarrow>
          (case fault d of
             Some e \<Rightarrow> (Inl e, logCall (UserSave un) d)
           | None \<Rightarrow>
               (if un \<in> set (map user_username (users d))
                then (Inl (Error (Some 11000) ''E11000 duplicate key error''),
                      logCall (UserSave un) d)
                else (let usr = User (length (users d)) n un (hashPassword ev pw)
                      in (Inr usr, logCall (UserSave un) (d\<lparr>users := users d @ [usr]\<rparr>)))))
      | _ \<Rightarrow> (Inl (Error None ''User validation failed''), logCall (UserSave []) d))"

text \<open>
  Modelled from the spec: \<open>findUserByUsername(username)\<close> gives the user or nothing.
  A request without a username matches no user.
\<close>

definition User_findOne :: "string option \<Rightarrow> db \<Rightarrow> (jsError + user option) \<times> db" where
  "User_findOne u d =
     (case fault d of
        Some e \<Rightarrow> (Inl e, logCall (UserFindOne u) d)
      | None \<Rightarrow>
          (case u of
             None \<Rightarrow> (Inr None, logCall (UserFindOne u) d)
           | Some n \<Rightarrow> (Inr (find (\<lambda>x. user_username x = n) (users d)), logCall (UserFindOne u) d)))"

text \<open>
  Modelled from the spec: \<open>comparePassword\<close> of the missing User model compares the
  hash of the candidate with the stored hash; a request without a password does not match.
\<close>

definition comparePassword :: "env \<Rightarrow> user \<Rightarrow> string option \<Rightarrow> bool" where
  "comparePassword ev usr p =
     (case p of None \<Rightarrow> False | Some c \<Rightarrow> hashPassword ev c = user_password usr)"

subsection \<open>Issuing a token\<close>

text \<open>
  \<open>jwt.sign(payload, secret, {expiresIn})\<close> stamps the token with the time of issue
  and with the expiration, the time of issue plus the lifetime, and signs it with the
  secret. The lifetime \<open>"1h"\<close> is 3600 seconds.
\<close>

definition jwt_sign :: "env \<Rightarrow> identity \<Rightarrow> string \<Rightarrow> nat \<Rightarrow> token" where
  "jwt_sign ev payload secret expiresIn =
     Signed (userId payload) (userName payload) (clock ev) (clock ev + expiresIn) secret"

definition oneHour :: nat where
  "oneHour = 60 * 60"

subsection \<open>The account handlers (src/server.js, lines 49-95)\<close>

text \<open>\<open>POST /signup\<close>, lines 49-71.\<close>

definition signup :: "env \<Rightarrow> request \<Rightarrow> db \<Rightarrow> response \<times> db" where
  "signup ev req d =
     (if \<not> truthyStr (username (body req)) \<or> \<not> truthyStr (password (body req))
      then (json 400 [(''success'', JBool False),
                      (''msg'', JStr ''Please include both username and password.'')], d)
      else
        (case User_save ev (name (body req)) (username (body req)) (password (body req)) d of
           (Inr usr, d') \<Rightarrow>
             (json 201 [(''success'', JBool True), (''msg'', JStr ''User created successfully.'')], d')
         | (Inl err, d') \<Rightarrow>
             (if code err = Some 11000
              then (json 409 [(''success'', JBool False),
                              (''message'', JStr ''User already exists.'')], d')
              else (json 500 [(''success'', JBool False),
                              (''message'', JStr ''Server error.'')], d'))))"

text \<open>\<open>POST /signin\<close>, lines 74-95.\<close>

definition signin :: "env \<Rightarrow> request \<Rightarrow> db \<Rightarrow> response \<times> db" where
  "signin ev req d =
     (case User_findOne (username (body req)) d of
        (Inl err, d') \<Rightarrow>
          (json 500 [(''success'', JBool False), (''message'', JStr ''Server error'')], d')
      | (Inr None, d') \<Rightarrow>
          (json 401 [(''success'', JBool False), (''msg'', JStr ''User not found.'')], d')
      | (Inr (Some usr), d') \<Rightarrow>
          (if comparePassword ev usr (password (body req))
           then (let userToken = \<lparr>userId = user_id usr, userName = user_username usr\<rparr>;
                     tok = jwt_sign ev userToken (SECRET_KEY ev) oneHour
                 in (json 200 [(''success'', JBool True), (''token'', JToken ''JWT '' tok)], d'))
           else (json 401 [(''success'', JBool False), (''msg'', JStr ''Incorrect password.'')], d')))"

section \<open>Authentication\<close>

text \<open>
  Modelled from the spec: the file \<open>auth_jwt.js\<close> with \<open>isAuthenticated\<close> and the
  verification of tokens is missing. \<open>verify\<close> checks signature and expiration: it
  fails if the signature does not match, the token is malformed, or the current time
  exceeds the embedded expiration; on success it returns the embedded identity.
\<close>

definition verify :: "env \<Rightarrow> token \<Rightarrow> identity option" where
  "verify ev tok =
     (case tok of
        Malformed s \<Rightarrow> None
      | Signed i u issued expires k \<Rightarrow>
          (if k \<noteq> SECRET_KEY ev then None
           else if clock ev > expires then None
           else Some \<lparr>userId = i, userName = u\<rparr>))"

text \<open>
  Modelled from the spec: the bearer token is the part of the authorization header
  after the prefix \<open>"JWT "\<close>; a request without such a header carries no token.
\<close>

definition extractToken :: "request \<Rightarrow> token option" where
  "extractToken req =
     (case authorization req of
        None \<Rightarrow> None
      | Some (scheme, tok) \<Rightarrow> (if scheme = ''JWT '' then Some tok else None))"

text \<open>
  Modelled from the spec: the failure \<open>Unauthenticated\<close> of the missing middleware
  maps to the status 401. The spec fixes no body; the one here is plain text.
\<close>

definition unauthenticated :: response where
  "unauthenticated = \<lparr>status = 401, resBody = Text ''Unauthorized''\<rparr>"

text \<open>
  Modelled from the spec: the middleware extracts the token; if there is none it fails
  with 401 without invoking the downstream handler; otherwise it verifies the token,
  fails with 401 when verification fails, and on success attaches the identity to the
  request and invokes the downstream handler \<open>next\<close>.
\<close>

definition isAuthenticated ::
  "env \<Rightarrow> (request \<Rightarrow> db \<Rightarrow> response \<times> db) \<Rightarrow> request \<Rightarrow> db \<Rightarrow> response \<times> db" where
  "isAuthenticated ev next req d =
     (case extractToken req of
        None \<Rightarrow> (unauthenticated, d)
      | Some tok \<Rightarrow>
          (case verify ev tok of
             None \<Rightarrow> (unauthenticated, d)
           | Some ident \<Rightarrow> next (req\<lparr>user := Some ident\<rparr>) d))"

section \<open>The router (src/server.js, lines 46-186)\<close>

text \<open>
  The routes in the order of their registration: the welcome page, the two account
  routes, and the movie routes, each behind \<open>isAuthenticated\<close>. \<open>path\<close> holds the
  segments of the request path as the framework matches them. Any other request gets
  the framework's 404.
\<close>

definition router :: "env \<Rightarrow> request \<Rightarrow> db \<Rightarrow> response \<times> db" where
  "router ev req d =
     (if verb req = GET \<and> path req = []
      then (\<lparr>status = 200, resBody = Text ''Welcome to the Movie API''\<rparr>, d)
      else if verb req = POST \<and> path req = [''signup''] then signup ev req d
      else if verb req = POST \<and> path req = [''signin''] then signin ev req d
      else if verb req = GET \<and> path req = [''movies'']
      then isAuthenticated ev getMovies req d
      else if verb req = POST \<and> path req = [''movies'']
      then isAuthenticated ev postMovies req d
      else
        (case path req of
           [p, t] \<Rightarrow>
             (if p = ''movies'' \<and> verb req = PUT then isAuthenticated ev (putMovie t) req d
              else if p = ''movies'' \<and> verb req = GET then isAuthenticated ev (getMovie t) req d
              else if p = ''movies'' \<and> verb req = DELETE
              then isAuthenticated ev (deleteMovie t) req d
              else (\<lparr>status = 404, resBody = Text ''Not Found''\<rparr>, d))
         | _ \<Rightarrow> (\<lparr>status = 404, resBody = Text ''Not Found''\<rparr>, d)))"

section \<open>Observing responses\<close>

text \<open>The \<open>success\<close> field of a JSON response body, when it is there and a boolean.\<close>

definition successField :: "response \<Rightarrow> bool option" where
  "successField r =
     (case resBody r of
        Json b \<Rightarrow> (case map_of b ''success'' of Some (JBool x) \<Rightarrow> Some x | _ \<Rightarrow> None)
      | Text s \<Rightarrow> None)"

definition is2xx :: "nat \<Rightarrow> bool" where
  "is2xx s = (200 \<le> s \<and> s < 300)"

text \<open>The response of the fourth check of the update handler, line 144.\<close>

definition actorsError :: response where
  "actorsError = json 400 [(''success'', JBool False),
                           (''message'', JStr ''A movie must have at least 3 actors.'')]"

text \<open>The response of the second check of the update handler, line 130.\<close>

definition releaseDateError :: response where
  "releaseDateError = json 400 [(''success'', JBool False),
                                (''message'', JStr ''Release year must be between 1900 and 2100.'')]"

section \<open>Example data\<close>

definition inception :: movie where
  "inception = \<lparr>title = Some ''Inception'', releaseDate = Some 2010,
                 genre = Some ''Science Fiction'',
                 actors = Some [\<lparr>actorName = ''Leonardo DiCaprio'', characterName = ''Cobb''\<rparr>,
                                \<lparr>actorName = ''Elliot Page'', characterName = ''Ariadne''\<rparr>,
                                \<lparr>actorName = ''Tom Hardy'', characterName = ''Eames''\<rparr>]\<rparr>"

definition emptyBody :: reqBody where
  "emptyBody = \<lparr>title = None, releaseDate = None, genre = None, actors = None,
                 name = None, username = None, password = None\<rparr>"

definition env0 :: env where
  "env0 = \<lparr>SECRET_KEY = ''s3cret'', clock = 1000, hashPassword = rev\<rparr>"

text \<open>A store with one movie and one user, whose password is \<open>pw\<close>.\<close>

definition store0 :: db where
  "store0 = \<lparr>users = [User 0 None ''alice'' (rev ''pw'')], movies = [inception],
              fault = None, calls = []\<rparr>"

text \<open>\<open>PUT /movies/Inception\<close> with the given body and no authorization header.\<close>

definition putRequest :: "reqBody \<Rightarrow> request" where
  "putRequest b = \<lparr>verb = PUT, path = [''movies'', ''Inception''], authorization = None,
                     body = b, user = None\<rparr>"

text \<open>\<open>POST /movies\<close> with the given body, as the handler sees it once authenticated.\<close>

definition postRequest :: "reqBody \<Rightarrow> request" where
  "postRequest b = \<lparr>verb = POST, path = [''movies''], authorization = None,
                      body = b, user = Some \<lparr>userId = 0, userName = ''alice''\<rparr>\<rparr>"

definition signinRequest :: request where
  "signinRequest = \<lparr>verb = POST, path = [''signin''], authorization = None,
                      body = emptyBody\<lparr>username := Some ''alice'', password := Some ''pw''\<rparr>,
                      user = None\<rparr>"

text \<open>\<open>GET /movies\<close> with a token of the right key that expired at second 10.\<close>

definition expiredRequest :: request where
  "expiredRequest = \<lparr>verb = GET, path = [''movies''],
                       authorization = Some (''JWT '', Signed 0 ''alice'' 0 10 ''s3cret''),
                       body = emptyBody, user = None\<rparr>"

definition twoActors :: "actor list" where
  "twoActors = [\<lparr>actorName = ''Leonardo DiCaprio'', characterName = ''Cobb''\<rparr>,
                \<lparr>actorName = ''Elliot Page'', characterName = ''Ariadne''\<rparr>]"

definition threeActors :: "actor list" where
  "threeActors = twoActors @ [\<lparr>actorName = ''Tom Hardy'', characterName = ''Eames''\<rparr>]"

section \<open>Basic facts\<close>

lemmas put_unfold = putMovie_def Let_def truthyNum_def truthyStr_def truthyArr_def
  jsLess_def jsGreater_def includesStr_def

lemmas eval_simps = putRequest_def postRequest_def emptyBody_def store0_def inception_def
  Movie_findOneAndUpdate_def Movie_save_def logCall_def applyUpdate_def newMovie_def
  schemaErrors_def validationError_def genreEnum_def validGenres_def json_def

lemma status_json [simp]: "status (json s b) = s"
  by (simp add: json_def)

lemma success_json [simp]:
  "successField (json s ((''success'', JBool x) # rest)) = Some x"
  by (simp add: successField_def json_def)

text \<open>The persistence branch of the update handler never answers 400 and makes one call.\<close>

lemma put_persist_status:
  "status (fst (case Movie_findOneAndUpdate t u d of
           (Inr None, d') \<Rightarrow> (json 404 a, d')
         | (Inr (Some m), d') \<Rightarrow> (json 200 (b m), d')
         | (Inl err, d') \<Rightarrow> (json 500 (c err), d'))) \<noteq> 400"
  by (simp add: Movie_findOneAndUpdate_def split: option.splits prod.splits sum.splits)

lemma put_persist_not_400:
  "fst (case Movie_findOneAndUpdate t u d of
           (Inr None, d') \<Rightarrow> (json 404 a, d')
         | (Inr (Some m), d') \<Rightarrow> (json 200 (b m), d')
         | (Inl err, d') \<Rightarrow> (json 500 (c err), d')) \<noteq> json 400 x"
  by (auto simp add: json_def split: option.splits prod.splits sum.splits)

lemma Movie_findOneAndUpdate_calls:
  "calls (snd (Movie_findOneAndUpdate t u d)) = calls d @ [MovieFindOneAndUpdate t]"
  by (simp add: Movie_findOneAndUpdate_def logCall_def split: option.splits prod.splits)

lemma put_persist_calls:
  "calls (snd (case Movie_findOneAndUpdate t u d of
           (Inr None, d') \<Rightarrow> (json 404 a, d')
         | (Inr (Some m), d') \<Rightarrow> (json 200 (b m), d')
         | (Inl err, d') \<Rightarrow> (json 500 (c err), d'))) = calls d @ [MovieFindOneAndUpdate t]"
  using Movie_findOneAndUpdate_calls [of t u d]
  by (auto split: option.splits prod.splits sum.splits)

section \<open>Validation of updates\<close>

text \<open>
  C8: a \<open>PUT /movies/:title\<close> request whose payload contains none of the fields
  \<open>releaseDate\<close>, \<open>genre\<close> and \<open>actors\<close> is answered with 400 and the message that
  asks for a field to update; the store, with its record of calls, is returned as it
  was, so the repository is not called.
\<close>

theorem put_nothing_to_update:
  assumes "releaseDate (body req) = None" and "genre (body req) = None"
    and "actors (body req) = None"
  shows "putMovie t req d =
           (json 400 [(''success'', JBool False),
                      (''message'', JStr ''Provide at least one field to update.'')], d)"
  using assms by (simp add: put_unfold)

theorem put_nothing_to_update_witness:
  "releaseDate (body (putRequest emptyBody)) = None
   \<and> genre (body (putRequest emptyBody)) = None
   \<and> actors (body (putRequest emptyBody)) = None
   \<and> putMovie ''Inception'' (putRequest emptyBody) store0 =
       (json 400 [(''success'', JBool False),
                  (''message'', JStr ''Provide at least one field to update.'')], store0)"
proof -
  have h: "releaseDate (body (putRequest emptyBody)) = None"
    "genre (body (putRequest emptyBody)) = None"
    "actors (body (putRequest emptyBody)) = None"
    by (simp_all add: putRequest_def emptyBody_def)
  show ?thesis
    using h put_nothing_to_update [OF h, of "''Inception''" store0] by simp
qed

text \<open>
  What the four checks of the update handler do as written: the answer is 400 exactly
  when one of them fires (nothing to update; a nonzero release year outside
  1900..2100; a nonempty genre outside the list; an actors array with fewer than
  three entries), and a request answered with 400 leaves the store as it was, its
  record of calls included.
\<close>

lemma put_400_iff_check_fires:
  "((\<not> truthyNum (releaseDate (body req)) \<and> \<not> truthyStr (genre (body req))
       \<and> \<not> truthyArr (actors (body req)))
     \<or> (\<exists>y. releaseDate (body req) = Some y \<and> y \<noteq> 0 \<and> (y < 1900 \<or> y > 2100))
     \<or> (\<exists>g. genre (body req) = Some g \<and> g \<noteq> [] \<and> g \<notin> set validGenres)
     \<or> (\<exists>xs. actors (body req) = Some xs \<and> length xs < 3))
    = (status (fst (putMovie t req d)) = 400)
   \<and> (status (fst (putMovie t req d)) = 400 \<longrightarrow> snd (putMovie t req d) = d)"
  apply (simp add: put_unfold put_persist_status)
  apply (auto simp add: json_def split: option.splits)
  done

text \<open>The update \<open>{genre: "Not-A-Genre"}\<close> is answered with 400 and changes nothing.\<close>

lemma put_not_a_genre_rejected:
  "status (fst (putMovie ''Inception''
                  (putRequest (emptyBody\<lparr>genre := Some ''Not-A-Genre''\<rparr>)) store0)) = 400
   \<and> snd (putMovie ''Inception''
            (putRequest (emptyBody\<lparr>genre := Some ''Not-A-Genre''\<rparr>)) store0) = store0"
proof -
  let ?req = "putRequest (emptyBody\<lparr>genre := Some ''Not-A-Genre''\<rparr>)"
  have "\<exists>g. genre (body ?req) = Some g \<and> g \<noteq> [] \<and> g \<notin> set validGenres"
    by (simp add: putRequest_def emptyBody_def validGenres_def)
  then show ?thesis
    using put_400_iff_check_fires [of ?req "''Inception''" store0] by blast
qed

text \<open>
  C3: for a \<open>PUT /movies/:title\<close> request whose \<open>actors\<close> field is an array of length
  k: if k < 3 the answer is 400 and the store is untouched; if k \<ge> 3 the answer is never
  the actors rejection; and when the two checks before it let the payload through
  (no release year, or 0, or one in 1900..2100; no genre, or the empty one, or one of
  the list), the actors rejection is given exactly when k < 3 and the update reaches
  the repository exactly when k \<ge> 3.
\<close>

theorem put_actors_min_three:
  assumes "actors (body req) = Some xs"
  shows "(length xs < 3 \<longrightarrow>
            status (fst (putMovie t req d)) = 400 \<and> snd (putMovie t req d) = d)
       \<and> (3 \<le> length xs \<longrightarrow> fst (putMovie t req d) \<noteq> actorsError)
       \<and> ((\<forall>y. releaseDate (body req) = Some y \<longrightarrow> y = 0 \<or> (1900 \<le> y \<and> y \<le> 2100))
            \<and> (\<forall>g. genre (body req) = Some g \<longrightarrow> g = [] \<or> g \<in> set validGenres) \<longrightarrow>
            ((fst (putMovie t req d) = actorsError) = (length xs < 3))
            \<and> ((calls (snd (putMovie t req d)) = calls d @ [MovieFindOneAndUpdate t])
                = (3 \<le> length xs)))"
  using assms
  apply (simp add: put_unfold put_persist_calls actorsError_def put_persist_not_400)
  apply (auto simp add: json_def split: option.splits)
  done

theorem put_actors_min_three_witness:
  "fst (putMovie ''Inception'' (putRequest (emptyBody\<lparr>actors := Some twoActors\<rparr>)) store0)
     = actorsError
   \<and> snd (putMovie ''Inception'' (putRequest (emptyBody\<lparr>actors := Some twoActors\<rparr>)) store0)
     = store0
   \<and> calls (snd (putMovie ''Inception''
                   (putRequest (emptyBody\<lparr>actors := Some threeActors\<rparr>)) store0))
     = [MovieFindOneAndUpdate ''Inception'']"
proof -
  let ?r2 = "putRequest (emptyBody\<lparr>actors := Some twoActors\<rparr>)"
  let ?r3 = "putRequest (emptyBody\<lparr>actors := Some threeActors\<rparr>)"
  have a2: "actors (body ?r2) = Some twoActors" and a3: "actors (body ?r3) = Some threeActors"
    by (simp_all add: putRequest_def)
  have n2: "releaseDate (body ?r2) = None \<and> genre (body ?r2) = None"
    and n3: "releaseDate (body ?r3) = None \<and> genre (body ?r3) = None"
    by (simp_all add: putRequest_def emptyBody_def)
  have l2: "length twoActors < 3" and l3: "3 \<le> length threeActors"
    by (simp_all add: twoActors_def threeActors_def)
  have c0: "calls store0 = []"
    by (simp add: store0_def)
  show ?thesis
    using put_actors_min_three [OF a2, of "''Inception''" store0]
      put_actors_min_three [OF a3, of "''Inception''" store0] n2 n3 l2 l3 c0
    by simp
qed

text \<open>
  Where the range check and the genre check do hold: a nonzero release year is
  answered with the range rejection exactly when it lies outside 1900..2100, and a
  nonempty genre outside the list is always answered with 400.
\<close>

lemma put_releaseDate_nonzero:
  assumes "releaseDate (body req) = Some y" and "y \<noteq> 0"
  shows "(fst (putMovie t req d) = releaseDateError) = (y < 1900 \<or> y > 2100)"
  using assms
  apply (simp add: put_unfold releaseDateError_def put_persist_not_400)
  apply (auto simp add: json_def split: option.splits)
  done

lemma put_genre_nonempty:
  assumes "genre (body req) = Some g" and "g \<noteq> []" and "g \<notin> set validGenres"
  shows "status (fst (putMovie t req d)) = 400 \<and> snd (putMovie t req d) = d"
  using assms by (simp add: put_unfold)

text \<open>
  C1: the claim is that an update is accepted only when its genre string is one of
  the ten values. The handler tests the genre for truthiness first, so the empty
  string skips the check: the update \<open>{releaseDate: 2000, genre: ""}\<close> of a stored
  movie is answered with 200 and the empty genre, which is not in the list, is stored.
\<close>

theorem put_empty_genre_persisted:
  "status (fst (putMovie ''Inception''
                 (putRequest (emptyBody\<lparr>releaseDate := Some 2000, genre := Some []\<rparr>))
                 store0)) = 200
   \<and> movies (snd (putMovie ''Inception''
                 (putRequest (emptyBody\<lparr>releaseDate := Some 2000, genre := Some []\<rparr>))
                 store0))
       = [inception\<lparr>releaseDate := Some 2000, genre := Some []\<rparr>]
   \<and> [] \<notin> set validGenres"
  by (simp add: put_unfold eval_simps)

text \<open>
  C2: the claim is that an update is accepted only when its release year lies in
  1900..2100, and that a year outside is answered with the message about the bounds.
  The handler tests the year for truthiness first, so 0 skips the check: the update
  \<open>{releaseDate: 0, genre: "Drama"}\<close> of a stored movie is answered with 200 and the
  year 0 is stored, and the update \<open>{releaseDate: 0}\<close> is answered with the message
  that asks for a field to update.
\<close>

theorem put_zero_releaseDate_persisted:
  "status (fst (putMovie ''Inception''
                 (putRequest (emptyBody\<lparr>releaseDate := Some 0, genre := Some ''Drama''\<rparr>))
                 store0)) = 200
   \<and> movies (snd (putMovie ''Inception''
                 (putRequest (emptyBody\<lparr>releaseDate := Some 0, genre := Some ''Drama''\<rparr>))
                 store0))
       = [inception\<lparr>releaseDate := Some 0, genre := Some ''Drama''\<rparr>]
   \<and> fst (putMovie ''Inception'' (putRequest (emptyBody\<lparr>releaseDate := Some 0\<rparr>)) store0)
       = json 400 [(''success'', JBool False),
                   (''message'', JStr ''Provide at least one field to update.'')]"
  by (simp add: put_unfold eval_simps)

text \<open>
  C5: the claim is that an update whose payload fails a validation rule is answered
  with 400 before any persistence call, so that the stored movie stays as it was.
  The release year 0 lies outside 1900..2100, yet the handler skips its range check
  for it: the update \<open>{releaseDate: 0, actors: [three actors]}\<close> of a stored movie is
  answered with 200, the only call made is \<open>findOneAndUpdate\<close>, and the stored movie
  now has the year 0.
\<close>

theorem put_invalid_payload_reaches_store:
  "status (fst (putMovie ''Inception''
                 (putRequest (emptyBody\<lparr>releaseDate := Some 0, actors := Some threeActors\<rparr>))
                 store0)) = 200
   \<and> calls (snd (putMovie ''Inception''
                 (putRequest (emptyBody\<lparr>releaseDate := Some 0, actors := Some threeActors\<rparr>))
                 store0))
       = [MovieFindOneAndUpdate ''Inception'']
   \<and> movies (snd (putMovie ''Inception''
                 (putRequest (emptyBody\<lparr>releaseDate := Some 0, actors := Some threeActors\<rparr>))
                 store0))
       = [inception\<lparr>releaseDate := Some 0\<rparr>]
   \<and> movies store0 = [inception]
   \<and> inception\<lparr>releaseDate := Some 0\<rparr> \<noteq> inception"
  by (simp add: put_unfold eval_simps twoActors_def threeActors_def)

section \<open>Creating a movie\<close>

text \<open>
  C4: the claim is that a \<open>POST /movies\<close> request whose payload violates a domain rule
  is answered with 400. The handler has no check of its own: the violation is raised
  by \<open>save\<close> and caught by the handler's only \<open>catch\<close>, which answers 500. A movie with
  the genre \<open>Not-A-Genre\<close> is answered with 500 and is not stored.
\<close>

theorem post_invalid_genre_is_500:
  "status (fst (postMovies
                 (postRequest (emptyBody\<lparr>title := Some ''Tenet'', releaseDate := Some 2020,
                                            genre := Some ''Not-A-Genre''\<rparr>)) store0)) = 500
   \<and> movies (snd (postMovies
                 (postRequest (emptyBody\<lparr>title := Some ''Tenet'', releaseDate := Some 2020,
                                            genre := Some ''Not-A-Genre''\<rparr>)) store0))
       = movies store0"
  by (simp add: postMovies_def truthyStr_def eval_simps)

text \<open>
  A movie without a title is answered with 500 as well; a movie without a release
  year passes the schema, which does not require one, and is created.
\<close>

lemma post_missing_title_is_500:
  "status (fst (postMovies
                 (postRequest (emptyBody\<lparr>releaseDate := Some 2020, genre := Some ''Action''\<rparr>))
                 store0)) = 500"
  by (simp add: postMovies_def truthyStr_def eval_simps)

lemma post_missing_releaseDate_is_201:
  "status (fst (postMovies
                 (postRequest (emptyBody\<lparr>title := Some ''Tenet'', genre := Some ''Action''\<rparr>))
                 store0)) = 201"
  by (simp add: postMovies_def truthyStr_def eval_simps)

section \<open>Deleting a movie\<close>

lemma deleteFirst_absent:
  "\<forall>m\<in>set ms. title m \<noteq> Some t \<Longrightarrow> deleteFirst t ms = (0, ms)"
  by (induction ms) auto

lemma deleteFirst_remaining:
  "length (filter (\<lambda>m. title m = Some t) (snd (deleteFirst t ms)))
     = length (filter (\<lambda>m. title m = Some t) ms) - 1"
  by (induction ms) (auto split: prod.splits)

lemma deleteMovie_fault: "fault (snd (deleteMovie t req d)) = fault d"
  by (simp add: deleteMovie_def Movie_deleteOne_def logCall_def
      split: option.splits prod.splits)

lemma deleteMovie_movies:
  "fault d = None \<Longrightarrow> movies (snd (deleteMovie t req d)) = snd (deleteFirst t (movies d))"
  by (simp add: deleteMovie_def Movie_deleteOne_def logCall_def split: prod.splits)

lemma deleteMovie_ok:
  "fault d = None \<Longrightarrow>
   fst (deleteMovie t req d) =
     json 200 [(''success'', JBool True), (''message'', JStr ''Movie deleted''),
               (''result'', JResult (fst (deleteFirst t (movies d))))]"
  by (simp add: deleteMovie_def Movie_deleteOne_def split: prod.splits)

text \<open>
  C6: while the store is reachable, \<open>DELETE /movies/:title\<close> for a title that no stored
  movie has is answered with 200, \<open>success: true\<close> and a result that counts 0 deleted
  documents, and the collections are left as they were; a second delete of the same
  title is answered with 200 whatever the first one did, and when at most one movie
  had the title the second delete finds none and is such a no-op.
\<close>

theorem delete_absent_is_noop:
  assumes "fault d = None"
  shows "((\<forall>m\<in>set (movies d). title m \<noteq> Some t) \<longrightarrow>
            deleteMovie t req d =
              (json 200 [(''success'', JBool True), (''message'', JStr ''Movie deleted''),
                         (''result'', JResult 0)],
               logCall (MovieDeleteOne t) d))
       \<and> status (fst (deleteMovie t req' (snd (deleteMovie t req d)))) = 200
       \<and> (length (filter (\<lambda>m. title m = Some t) (movies d)) \<le> 1 \<longrightarrow>
            deleteMovie t req' (snd (deleteMovie t req d)) =
              (json 200 [(''success'', JBool True), (''message'', JStr ''Movie deleted''),
                         (''result'', JResult 0)],
               logCall (MovieDeleteOne t) (snd (deleteMovie t req d))))"
proof -
  have absent: "deleteMovie t r e =
      (json 200 [(''success'', JBool True), (''message'', JStr ''Movie deleted''),
                 (''result'', JResult 0)], logCall (MovieDeleteOne t) e)"
    if "fault e = None" and "\<forall>m\<in>set (movies e). title m \<noteq> Some t" for r e
    using that by (simp add: deleteMovie_def Movie_deleteOne_def deleteFirst_absent logCall_def)
  let ?d1 = "snd (deleteMovie t req d)"
  have f1: "fault ?d1 = None"
    using assms by (simp add: deleteMovie_fault)
  have second: "status (fst (deleteMovie t req' ?d1)) = 200"
    using f1 by (simp add: deleteMovie_ok)
  have gone: "\<forall>m\<in>set (movies ?d1). title m \<noteq> Some t"
    if "length (filter (\<lambda>m. title m = Some t) (movies d)) \<le> 1"
  proof -
    have "length (filter (\<lambda>m. title m = Some t) (movies ?d1)) = 0"
      using that assms by (simp add: deleteMovie_movies deleteFirst_remaining)
    then show ?thesis
      by (simp add: filter_empty_conv)
  qed
  show ?thesis
    using absent [OF assms] absent [OF f1] second gone by blast
qed

theorem delete_absent_is_noop_witness:
  "fault store0 = None
   \<and> deleteMovie ''Unknown'' (putRequest emptyBody) store0 =
       (json 200 [(''success'', JBool True), (''message'', JStr ''Movie deleted''),
                  (''result'', JResult 0)],
        logCall (MovieDeleteOne ''Unknown'') store0)
   \<and> movies (logCall (MovieDeleteOne ''Unknown'') store0) = movies store0
   \<and> fst (deleteMovie ''Inception'' (putRequest emptyBody)
            (snd (deleteMovie ''Inception'' (putRequest emptyBody) store0))) =
       json 200 [(''success'', JBool True), (''message'', JStr ''Movie deleted''),
                 (''result'', JResult 0)]"
proof -
  have f: "fault store0 = None"
    by (simp add: store0_def)
  have u: "\<forall>m\<in>set (movies store0). title m \<noteq> Some ''Unknown''"
    by (simp add: store0_def inception_def)
  have i: "length (filter (\<lambda>m. title m = Some ''Inception'') (movies store0)) \<le> 1"
    by (simp add: store0_def)
  show ?thesis
    using f u i
      delete_absent_is_noop [OF f, of "''Unknown''" "putRequest emptyBody" "putRequest emptyBody"]
      delete_absent_is_noop [OF f, of "''Inception''" "putRequest emptyBody" "putRequest emptyBody"]
    by (simp add: logCall_def)
qed

section \<open>Authentication of the movie routes\<close>

text \<open>
  C7: a request that carries no bearer token, or one that verification refuses, is
  answered with 401 by the middleware whatever the downstream handler is, and the
  store, with its record of calls, is returned as it was; so it is for such a request
  to each of the five movie routes of the router.
\<close>

theorem unauthenticated_never_reaches_handler:
  assumes "extractToken req = None
           \<or> (\<exists>tok. extractToken req = Some tok \<and> verify ev tok = None)"
  shows "status unauthenticated = 401
       \<and> (\<forall>next. isAuthenticated ev next req d = (unauthenticated, d))
       \<and> ((path req = [''movies''] \<and> (verb req = GET \<or> verb req = POST))
            \<or> (\<exists>t. path req = [''movies'', t]
                    \<and> (verb req = GET \<or> verb req = PUT \<or> verb req = DELETE))
           \<longrightarrow> router ev req d = (unauthenticated, d))"
proof -
  have block: "isAuthenticated ev h req d = (unauthenticated, d)" for h
    using assms by (auto simp add: isAuthenticated_def)
  have "router ev req d = (unauthenticated, d)"
    if "path req = [''movies'']" and "verb req = GET \<or> verb req = POST"
    using that block by (auto simp add: router_def)
  moreover have "router ev req d = (unauthenticated, d)"
    if "path req = [''movies'', t]"
      and "verb req = GET \<or> verb req = PUT \<or> verb req = DELETE" for t
    using that block by (auto simp add: router_def)
  ultimately show ?thesis
    using block by (auto simp add: unauthenticated_def)
qed

theorem unauthenticated_never_reaches_handler_witness:
  "extractToken (putRequest emptyBody) = None
   \<and> router env0 (putRequest emptyBody) store0 = (unauthenticated, store0)
   \<and> extractToken expiredRequest = Some (Signed 0 ''alice'' 0 10 ''s3cret'')
   \<and> verify env0 (Signed 0 ''alice'' 0 10 ''s3cret'') = None
   \<and> router env0 expiredRequest store0 = (unauthenticated, store0)"
proof -
  have a: "extractToken (putRequest emptyBody) = None"
    by (simp add: extractToken_def putRequest_def)
  have b: "extractToken expiredRequest = Some (Signed 0 ''alice'' 0 10 ''s3cret'')"
    by (simp add: extractToken_def expiredRequest_def)
  have c: "verify env0 (Signed 0 ''alice'' 0 10 ''s3cret'') = None"
    by (simp add: verify_def env0_def)
  have pa: "path (putRequest emptyBody) = [''movies'', ''Inception'']
            \<and> verb (putRequest emptyBody) = PUT"
    by (simp add: putRequest_def)
  have pb: "path expiredRequest = [''movies''] \<and> verb expiredRequest = GET"
    by (simp add: expiredRequest_def)
  have ha: "extractToken (putRequest emptyBody) = None
            \<or> (\<exists>tok. extractToken (putRequest emptyBody) = Some tok \<and> verify env0 tok = None)"
    using a by simp
  have hb: "extractToken expiredRequest = None
            \<or> (\<exists>tok. extractToken expiredRequest = Some tok \<and> verify env0 tok = None)"
    using b c by simp
  show ?thesis
    using a b c pa pb
      unauthenticated_never_reaches_handler [OF ha, of store0]
      unauthenticated_never_reaches_handler [OF hb, of store0]
    by simp
qed

section \<open>Lifetime of a token\<close>

text \<open>
  C9: every token that \<open>signin\<close> puts into its response at time t carries the prefix
  \<open>JWT\<close>, was issued at t, expires at t plus 3600 seconds and is signed with the
  secret; verification accepts it at every time up to t plus 59 minutes and refuses
  it at t plus 61 minutes.
\<close>

theorem signin_token_lifetime:
  assumes "resBody (fst (signin ev req d)) = Json b"
    and "map_of b ''token'' = Some (JToken pre tok)"
  shows "pre = ''JWT ''
       \<and> (\<exists>i u. tok = Signed i u (clock ev) (clock ev + 60 * 60) (SECRET_KEY ev))
       \<and> (\<forall>now. now \<le> clock ev + 59 * 60 \<longrightarrow> verify (ev\<lparr>clock := now\<rparr>) tok \<noteq> None)
       \<and> verify (ev\<lparr>clock := clock ev + 61 * 60\<rparr>) tok = None"
proof -
  have "pre = ''JWT ''
        \<and> tok = jwt_sign ev \<lparr>userId = user_id usr, userName = user_username usr\<rparr>
                  (SECRET_KEY ev) oneHour"
    if "fst (User_findOne (username (body req)) d) = Inr (Some usr)" for usr
    using assms that
    by (auto simp add: signin_def json_def Let_def
        split: prod.splits sum.splits option.splits if_splits)
  moreover have "\<exists>usr. fst (User_findOne (username (body req)) d) = Inr (Some usr)"
    using assms
    by (auto simp add: signin_def json_def Let_def
        split: prod.splits sum.splits option.splits if_splits)
  ultimately obtain i u
    where tok: "tok = Signed i u (clock ev) (clock ev + 60 * 60) (SECRET_KEY ev)"
      and pre: "pre = ''JWT ''"
    by (auto simp add: jwt_sign_def oneHour_def)
  show ?thesis
    using tok pre by (simp add: verify_def)
qed

theorem signin_token_lifetime_witness:
  "fst (signin env0 signinRequest store0) =
     json 200 [(''success'', JBool True),
               (''token'', JToken ''JWT '' (Signed 0 ''alice'' 1000 4600 ''s3cret''))]
   \<and> verify (env0\<lparr>clock := 1000 + 59 * 60\<rparr>) (Signed 0 ''alice'' 1000 4600 ''s3cret'') \<noteq> None
   \<and> verify (env0\<lparr>clock := 1000 + 61 * 60\<rparr>) (Signed 0 ''alice'' 1000 4600 ''s3cret'') = None"
proof -
  let ?tok = "Signed 0 ''alice'' 1000 4600 ''s3cret''"
  let ?b = "[(''success'', JBool True), (''token'', JToken ''JWT '' ?tok)]"
  have r: "fst (signin env0 signinRequest store0) = json 200 ?b"
    by (simp add: signin_def User_findOne_def comparePassword_def jwt_sign_def oneHour_def
        signinRequest_def emptyBody_def store0_def env0_def logCall_def)
  have h1: "resBody (fst (signin env0 signinRequest store0)) = Json ?b"
    using r by (simp add: json_def)
  have h2: "map_of ?b ''token'' = Some (JToken ''JWT '' ?tok)"
    by simp
  have c: "clock env0 = 1000" and s: "SECRET_KEY env0 = ''s3cret''"
    by (simp_all add: env0_def)
  show ?thesis
    using r c signin_token_lifetime [OF h1 h2] by (simp add: s)
qed

section \<open>The success field of every response\<close>

lemma signup_success:
  "successField (fst (signup ev req d)) = Some (is2xx (status (fst (signup ev req d))))"
  by (simp add: signup_def is2xx_def split: prod.splits sum.splits)

lemma signin_success:
  "successField (fst (signin ev req d)) = Some (is2xx (status (fst (signin ev req d))))"
  by (simp add: signin_def is2xx_def Let_def split: prod.splits sum.splits option.splits)

lemma getMovies_success:
  "successField (fst (getMovies req d)) = Some (is2xx (status (fst (getMovies req d))))"
  by (simp add: getMovies_def is2xx_def split: prod.splits sum.splits)

lemma postMovies_success:
  "successField (fst (postMovies req d)) = Some (is2xx (status (fst (postMovies req d))))"
  by (simp add: postMovies_def is2xx_def split: prod.splits sum.splits)

lemma putMovie_success:
  "successField (fst (putMovie t req d)) = Some (is2xx (status (fst (putMovie t req d))))"
  by (simp add: putMovie_def is2xx_def Let_def split: prod.splits sum.splits option.splits)

lemma getMovie_success:
  "successField (fst (getMovie t req d)) = Some (is2xx (status (fst (getMovie t req d))))"
  by (simp add: getMovie_def is2xx_def split: prod.splits sum.splits option.splits)

lemma deleteMovie_success:
  "successField (fst (deleteMovie t req d)) = Some (is2xx (status (fst (deleteMovie t req d))))"
  by (simp add: deleteMovie_def is2xx_def split: prod.splits sum.splits)

text \<open>
  C10: the response of each of the seven handlers (signup, signin and the five movie
  handlers) is a JSON body with a boolean \<open>success\<close> field, and the field is true
  exactly when the status lies in 200..299.
\<close>

theorem success_field_matches_status:
  "successField (fst (signup ev req d)) = Some (is2xx (status (fst (signup ev req d))))
   \<and> successField (fst (signin ev req d)) = Some (is2xx (status (fst (signin ev req d))))
   \<and> successField (fst (getMovies req d)) = Some (is2xx (status (fst (getMovies req d))))
   \<and> successField (fst (postMovies req d)) = Some (is2xx (status (fst (postMovies req d))))
   \<and> successField (fst (putMovie t req d)) = Some (is2xx (status (fst (putMovie t req d))))
   \<and> successField (fst (getMovie t req d)) = Some (is2xx (status (fst (getMovie t req d))))
   \<and> successField (fst (deleteMovie t req d))
       = Some (is2xx (status (fst (deleteMovie t req d))))"
  by (simp only: signup_success signin_success getMovies_success postMovies_success
      putMovie_success getMovie_success deleteMovie_success simp_thms)

theorem success_field_matches_status_witness:
  "successField (fst (signup env0 signinRequest store0)) = Some False
   \<and> status (fst (signup env0 signinRequest store0)) = 409
   \<and> successField (fst (signin env0 signinRequest store0)) = Some True
   \<and> status (fst (signin env0 signinRequest store0)) = 200
   \<and> successField (fst (getMovie ''Unknown'' signinRequest store0)) = Some False
   \<and> status (fst (getMovie ''Unknown'' signinRequest store0)) = 404"
proof -
  have a: "status (fst (signup env0 signinRequest store0)) = 409"
    by (simp add: signup_def User_save_def truthyStr_def signinRequest_def emptyBody_def
        store0_def)
  have b: "status (fst (signin env0 signinRequest store0)) = 200"
    by (simp add: signin_def User_findOne_def comparePassword_def signinRequest_def
        emptyBody_def store0_def env0_def)
  have c: "status (fst (getMovie ''Unknown'' signinRequest store0)) = 404"
    by (simp add: getMovie_def Movie_findOne_def store0_def inception_def)
  show ?thesis
    using a b c success_field_matches_status [of env0 signinRequest store0 "''Unknown''"]
    by (simp add: is2xx_def)
qed

end
